theory Spec2Isabelle
  imports Main "HOL-Library.Word"
begin

unbundle bit_operations_syntax

section \<open>Python values\<close>

text \<open>
  A Python \<open>float\<close> is an IEEE 754 binary64 value; it is kept as its 64 bits (sign,
  11 bits of exponent, 52 bits of fraction), so that the not-a-number values, the two
  zeros and the infinities are all there.
\<close>

type_synonym pyfloat = "64 word"

text \<open>\<open>float('nan')\<close>: the quiet not-a-number, and the default \<open>0.0\<close>.\<close>

definition float_nan :: pyfloat where
  "float_nan = 0x7FF8000000000000"

definition float_zero :: pyfloat where
  "float_zero = 0"

text \<open>
  \<open>math.isnan\<close>: the exponent is all ones and the fraction is not zero, which is to say
  that the value without its sign bit lies above the bits of infinity.
\<close>

definition isnan :: "pyfloat \<Rightarrow> bool" where
  "isnan x = (0x7FF0000000000000 < (x AND 0x7FFFFFFFFFFFFFFF))"

text \<open>
  \<open>x == y\<close> on floats: a not-a-number equals nothing, itself included; the two zeros
  are equal; every other value equals only itself.
\<close>

definition float_eq :: "pyfloat \<Rightarrow> pyfloat \<Rightarrow> bool" where
  "float_eq x y =
     (\<not> isnan x \<and> \<not> isnan y \<and>
      (x = y \<or> (x AND 0x7FFFFFFFFFFFFFFF) = 0 \<and> (y AND 0x7FFFFFFFFFFFFFFF) = 0))"

text \<open>
  \<open>0 <= x\<close> on floats: false for a not-a-number, true for both zeros and for every
  other value whose sign bit is clear.
\<close>

definition float_nonneg :: "pyfloat \<Rightarrow> bool" where
  "float_nonneg x = (\<not> isnan x \<and> (x \<le> 0x7FF0000000000000 \<or> x = 0x8000000000000000))"

text \<open>
  The values the constructors receive and \<open>serialize\<close> returns: \<open>None\<close>, booleans,
  integers, floats, strings, and dictionaries with string keys in insertion order.
\<close>

datatype pyval =
    PNone
  | PBool bool
  | PInt int
  | PFloat pyfloat
  | PStr string
  | PDict "(string \<times> pyval) list"

text \<open>The exceptions the modelled code can raise; a \<open>ValueError\<close> carries its message.\<close>

datatype py_error =
    ValueError string
  | TypeError
  | OverflowError
  | AttributeError

text \<open>
  \<open>x == s\<close> and \<open>x != s\<close> for a string literal \<open>s\<close>: only a string with the same
  characters is equal to it.
\<close>

fun py_eq_str :: "pyval \<Rightarrow> string \<Rightarrow> bool" where
  "py_eq_str (PStr t) s = (t = s)"
| "py_eq_str _ s = False"

text \<open>
  The interpreter's own conversions, which the modelled code calls and does not define:
  \<open>float(i)\<close> of an integer (\<open>None\<close>: the integer is too large, an \<open>OverflowError\<close>),
  \<open>float(s)\<close> of a string (\<open>None\<close>: not a number, a \<open>ValueError\<close>),
  \<open>format(x, '.Nf')\<close> of a float, and \<open>repr(s)\<close> of a string.
\<close>

record builtins =
  float_of_int :: "int \<Rightarrow> pyfloat option"
  float_of_str :: "string \<Rightarrow> pyfloat option"
  format_fixed :: "nat \<Rightarrow> pyfloat \<Rightarrow> string"
  repr_str :: "string \<Rightarrow> string"

text \<open>
  \<open>float(x)\<close>: a float is returned as it is, a boolean is the integer 1 or 0, and
  \<open>None\<close> or a dictionary is a \<open>TypeError\<close>.
\<close>

fun py_float :: "builtins \<Rightarrow> pyval \<Rightarrow> py_error + pyfloat" where
  "py_float b (PFloat x) = Inr x"
| "py_float b (PInt i) =
     (case float_of_int b i of None \<Rightarrow> Inl OverflowError | Some x \<Rightarrow> Inr x)"
| "py_float b (PBool t) = Inr (if t then 0x3FF0000000000000 else 0)"
| "py_float b (PStr s) =
     (case float_of_str b s of
        None \<Rightarrow> Inl (ValueError (''could not convert string to float: '' @ repr_str b s))
      | Some x \<Rightarrow> Inr x)"
| "py_float b PNone = Inl TypeError"
| "py_float b (PDict d) = Inl TypeError"

text \<open>A string attribute that may be \<open>None\<close>, as a value.\<close>

fun py_opt_str :: "string option \<Rightarrow> pyval" where
  "py_opt_str None = PNone"
| "py_opt_str (Some s) = PStr s"

section \<open>models.py: NearEarthObject\<close>

text \<open>
  The attributes of a \<open>NearEarthObject\<close>. Its close approaches live in the database
  that links them; \<open>approaches\<close> holds their handles there.
\<close>

record near_earth_object =
  name :: "string option"
  designation :: string
  diameter :: pyfloat
  hazardous :: bool
  approaches :: "nat list"

text \<open>
  \<open>NearEarthObject.__init__(designation, name, diameter, hazardous)\<close>; the defaults of
  the source are \<open>''\<close>, \<open>None\<close>, \<open>float('nan')\<close> and \<open>False\<close>. \<open>float(diameter)\<close> is
  the one call that can raise.
\<close>

definition NearEarthObject_init ::
  "builtins \<Rightarrow> string \<Rightarrow> string option \<Rightarrow> pyval \<Rightarrow> pyval \<Rightarrow> py_error + near_earth_object" where
  "NearEarthObject_init b designation' name' diameter' hazardous' =
     (case (if \<not> py_eq_str diameter' '''' then py_float b diameter' else Inr float_nan) of
        Inl e \<Rightarrow> Inl e
      | Inr d \<Rightarrow>
          Inr \<lparr> name = (if name' \<noteq> Some '''' then name' else None),
                designation = designation',
                diameter = d,
                hazardous = (if py_eq_str hazardous' ''Y'' then True else False),
                approaches = [] \<rparr>)"

definition default_designation :: string where
  "default_designation = []"

definition default_name :: "string option" where
  "default_name = None"

definition default_diameter :: pyval where
  "default_diameter = PFloat float_nan"

definition default_hazardous :: pyval where
  "default_hazardous = PBool False"

text \<open>
  The \<open>fullname\<close> property. \<open>if self.name\<close> is false for \<open>None\<close> and for the empty
  string.
\<close>

definition NearEarthObject_fullname :: "near_earth_object \<Rightarrow> string" where
  "NearEarthObject_fullname self =
     (case name self of
        Some n \<Rightarrow>
          (if n \<noteq> '''' then designation self @ '' ('' @ n @ '')'' else designation self)
      | None \<Rightarrow> designation self)"

text \<open>\<open>NearEarthObject.__str__\<close>.\<close>

definition NearEarthObject_str :: "builtins \<Rightarrow> near_earth_object \<Rightarrow> string" where
  "NearEarthObject_str b self =
     (if \<not> isnan (diameter self) then
        ''NEO '' @ NearEarthObject_fullname self @ '' has a diameter of '' @
        format_fixed b 3 (diameter self) @ '' km and '' @
        (if hazardous self then ''is'' else ''is not'') @ '' '' @
        ''potentially hazardous.''
      else
        ''NEO '' @ NearEarthObject_fullname self @ '', '' @
        (if hazardous self then ''is'' else ''is not'') @ '' potentially '' @
        ''hazardous.'')"

text \<open>\<open>repr\<close> of a string attribute that may be \<open>None\<close>, and of a boolean.\<close>

fun repr_opt_str :: "builtins \<Rightarrow> string option \<Rightarrow> string" where
  "repr_opt_str b None = ''None''"
| "repr_opt_str b (Some s) = repr_str b s"

definition repr_bool :: "bool \<Rightarrow> string" where
  "repr_bool t = (if t then ''True'' else ''False'')"

text \<open>\<open>NearEarthObject.__repr__\<close>.\<close>

definition NearEarthObject_repr :: "builtins \<Rightarrow> near_earth_object \<Rightarrow> string" where
  "NearEarthObject_repr b self =
     ''NearEarthObject(designation='' @ repr_str b (designation self) @ '',  '' @
     ''name='' @ repr_opt_str b (name self) @ '', diameter='' @
     format_fixed b 3 (diameter self) @ '', '' @
     ''hazardous='' @ repr_bool (hazardous self) @ '')''"

section \<open>The helpers module\<close>

text \<open>A \<open>datetime\<close> value, to the minute.\<close>

record datetime =
  year :: nat
  month :: nat
  day :: nat
  hour :: nat
  minute :: nat

text \<open>
  Modelled from the spec: \<open>helpers.py\<close> (\<open>cd_to_datetime\<close>, \<open>datetime_to_str\<close>) is
  imported by \<open>models.py\<close> and is not among the sources. The spec describes two pure
  functions: one parses a date-time string of a fixed format into a structured value, or
  null when that is not possible; the other formats a structured value into a fixed
  pattern without seconds. Neither format is fixed by the spec, so both functions are
  parameters. The parser's result type also allows it to raise, which the spec does not
  mention and the model does not exclude.
\<close>

record helpers =
  cd_to_datetime :: "string \<Rightarrow> py_error + datetime option"
  datetime_to_str :: "datetime \<Rightarrow> string"

section \<open>models.py: CloseApproach\<close>

text \<open>
  The attributes of a \<open>CloseApproach\<close>: \<open>private_designation\<close> is the source's
  \<open>_designation\<close>, and \<open>neo\<close> is \<open>None\<close> or the object the database linked.
\<close>

record close_approach =
  private_designation :: pyval
  time :: "datetime option"
  distance :: pyfloat
  velocity :: pyfloat
  neo :: "near_earth_object option"

text \<open>
  \<open>CloseApproach.__init__(distance, velocity, time, neo)\<close>; the defaults of the source
  are \<open>0.0\<close>, \<open>0.0\<close>, \<open>'0001-Jan-01 00:00'\<close> and \<open>None\<close>. The calls are made in the
  source's order, and the first one that raises ends the construction.
\<close>

definition CloseApproach_init ::
  "builtins \<Rightarrow> helpers \<Rightarrow> pyval \<Rightarrow> pyval \<Rightarrow> string \<Rightarrow> pyval \<Rightarrow> py_error + close_approach" where
  "CloseApproach_init b h distance' velocity' time' neo' =
     (case cd_to_datetime h time' of
        Inl e \<Rightarrow> Inl e
      | Inr t \<Rightarrow>
          (case py_float b distance' of
             Inl e \<Rightarrow> Inl e
           | Inr d \<Rightarrow>
               (case py_float b velocity' of
                  Inl e \<Rightarrow> Inl e
                | Inr v \<Rightarrow>
                    Inr \<lparr> private_designation = neo',
                          time = t,
                          distance = d,
                          velocity = v,
                          neo = None \<rparr>)))"

definition default_distance :: pyval where
  "default_distance = PFloat float_zero"

definition default_velocity :: pyval where
  "default_velocity = PFloat float_zero"

definition default_time :: string where
  "default_time = ''0001-Jan-01 00:00''"

definition default_neo :: pyval where
  "default_neo = PNone"

text \<open>The \<open>time_str\<close> property. A \<open>datetime\<close> is always true; \<open>None\<close> is false.\<close>

definition CloseApproach_time_str :: "helpers \<Rightarrow> close_approach \<Rightarrow> string" where
  "CloseApproach_time_str h self =
     (case time self of
        Some t \<Rightarrow> datetime_to_str h t
      | None \<Rightarrow> ''an unknown date and time'')"

text \<open>The \<open>designation\<close> property.\<close>

definition CloseApproach_designation :: "close_approach \<Rightarrow> pyval" where
  "CloseApproach_designation self = private_designation self"

text \<open>
  \<open>CloseApproach.__str__\<close>. \<open>self.neo.fullname\<close> on \<open>None\<close> is an
  \<open>AttributeError\<close>.
\<close>

definition CloseApproach_str :: "builtins \<Rightarrow> helpers \<Rightarrow> close_approach \<Rightarrow> py_error + string" where
  "CloseApproach_str b h self =
     (case neo self of
        None \<Rightarrow> Inl AttributeError
      | Some n \<Rightarrow>
          Inr (''At '' @ CloseApproach_time_str h self @ '', '' @ [CHR 0x27] @
               NearEarthObject_fullname n @ [CHR 0x27] @ '' approached '' @
               ''Earth at a distance of '' @ format_fixed b 2 (distance self) @ '' au and a '' @
               ''velocity of '' @ format_fixed b 2 (velocity self) @ '' km/s.''))"

text \<open>
  \<open>CloseApproach.__repr__\<close>. \<open>{self.neo!r}\<close> is \<open>repr(None)\<close> or the object's
  \<open>__repr__\<close>; nothing is read from \<open>self.neo\<close>.
\<close>

definition CloseApproach_repr :: "builtins \<Rightarrow> helpers \<Rightarrow> close_approach \<Rightarrow> string" where
  "CloseApproach_repr b h self =
     ''CloseApproach(time='' @ repr_str b (CloseApproach_time_str h self) @ '', '' @
     ''distance='' @ format_fixed b 2 (distance self) @ '', '' @
     ''velocity='' @ format_fixed b 2 (velocity self) @ '', '' @
     ''neo='' @ (case neo self of None \<Rightarrow> ''None'' | Some n \<Rightarrow> NearEarthObject_repr b n) @
     '')''"

text \<open>
  \<open>CloseApproach.serialize(extension)\<close>. The membership test comes first; then each
  dictionary reads \<open>self.neo.designation\<close>, an \<open>AttributeError\<close> when \<open>self.neo\<close> is
  \<open>None\<close>.
\<close>

definition CloseApproach_serialize :: "helpers \<Rightarrow> close_approach \<Rightarrow> pyval \<Rightarrow> py_error + pyval" where
  "CloseApproach_serialize h self extension =
     (if \<not> (py_eq_str extension ''csv'' \<or> py_eq_str extension ''json'') then
        Inl (ValueError ''Invalid file extension'')
      else if py_eq_str extension ''csv'' then
        (case neo self of
           None \<Rightarrow> Inl AttributeError
         | Some n \<Rightarrow>
             Inr (PDict [(''datetime_utc'', PStr (CloseApproach_time_str h self)),
                         (''distance_au'', PFloat (distance self)),
                         (''velocity_km_s'', PFloat (velocity self)),
                         (''designation'', PStr (designation n)),
                         (''name'', py_opt_str (name n)),
                         (''diameter_km'', PFloat (diameter n)),
                         (''potentially_hazardous'', PBool (hazardous n))]))
      else
        (case neo self of
           None \<Rightarrow> Inl AttributeError
         | Some n \<Rightarrow>
             Inr (PDict [(''datetime_utc'', PStr (CloseApproach_time_str h self)),
                         (''distance_au'', PFloat (distance self)),
                         (''velocity_km_s'', PFloat (velocity self)),
                         (''neo'', PDict [(''designation'', PStr (designation n)),
                                          (''name'', py_opt_str (name n)),
                                          (''diameter_km'', PFloat (diameter n)),
                                          (''potentially_hazardous'', PBool (hazardous n))])])))"

section \<open>The scenario of the examples\<close>

text \<open>
  The examples below run on the values of one scenario: the object 433 (Eros), 16.84 km
  across and not hazardous, and its approach of 1900-Dec-27 01:30 at 0.148 au and
  5.1 km/s. The floats are written as their bits: 16.84 is \<open>0x4030D70A3D70A3D7\<close>, 0.148
  is \<open>0x3FC2F1A9FBE76C8B\<close> and 5.1 is \<open>0x4014666666666666\<close>.

  \<open>scenario_builtins\<close> is a table of the interpreter's conversions at these values, and
  \<open>scenario_helpers\<close> a table of the two helpers at the scenario's time. An argument
  outside a table is answered with a failed conversion, an empty string or no date;
  the examples only read what the tables hold.
\<close>

definition scenario_builtins :: builtins where
  "scenario_builtins =
     \<lparr> float_of_int = (\<lambda>i. if i = 0 then Some 0 else None),
       float_of_str =
         (\<lambda>s. if s = ''16.84'' then Some 0x4030D70A3D70A3D7
              else if s = ''0.148'' then Some 0x3FC2F1A9FBE76C8B
              else if s = ''5.1'' then Some 0x4014666666666666
              else None),
       format_fixed =
         (\<lambda>k x. if k = 3 \<and> x = 0x4030D70A3D70A3D7 then ''16.840''
                else if k = 2 \<and> x = 0x3FC2F1A9FBE76C8B then ''0.15''
                else if k = 2 \<and> x = 0x4014666666666666 then ''5.10''
                else []),
       repr_str =
         (\<lambda>s. if s \<in> set [''1900-Dec-27 01:30'', ''an unknown date and time'', ''433'', ''Eros'']
              then [CHR 0x27] @ s @ [CHR 0x27] else []) \<rparr>"

definition scenario_time :: datetime where
  "scenario_time = \<lparr> year = 1900, month = 12, day = 27, hour = 1, minute = 30 \<rparr>"

definition scenario_helpers :: helpers where
  "scenario_helpers =
     \<lparr> cd_to_datetime =
         (\<lambda>s. if s = ''1900-Dec-27 01:30'' then Inr (Some scenario_time) else Inr None),
       datetime_to_str =
         (\<lambda>t. if t = scenario_time then ''1900-Dec-27 01:30'' else []) \<rparr>"

definition eros :: near_earth_object where
  "eros = \<lparr> name = Some ''Eros'', designation = ''433'', diameter = 0x4030D70A3D70A3D7,
            hazardous = False, approaches = [] \<rparr>"

definition eros_approach :: close_approach where
  "eros_approach = \<lparr> private_designation = PStr ''433'', time = Some scenario_time,
                     distance = 0x3FC2F1A9FBE76C8B, velocity = 0x4014666666666666,
                     neo = None \<rparr>"

text \<open>
  The linking done by the database: the approach refers to its object, and the object
  lists the approach.
\<close>

definition eros_linked :: close_approach where
  "eros_linked = eros_approach \<lparr> neo := Some (eros \<lparr> approaches := [0] \<rparr>) \<rparr>"

section \<open>Basic facts\<close>

lemma py_eq_str_iff: "py_eq_str v s = (v = PStr s)"
  by (cases v) auto

lemma isnan_float_nan: "isnan float_nan"
  by (simp add: isnan_def float_nan_def)

lemma float_eq_nan: "isnan x \<Longrightarrow> \<not> float_eq x x"
  by (simp add: float_eq_def)

lemma init_neo_float:
  "NearEarthObject_init b dsg nm (PFloat d) hz =
     Inr \<lparr> name = (if nm \<noteq> Some [] then nm else None), designation = dsg, diameter = d,
           hazardous = (hz = PStr ''Y''), approaches = [] \<rparr>"
  by (simp add: NearEarthObject_init_def py_eq_str_iff)

lemma init_neo_empty:
  "NearEarthObject_init b dsg nm (PStr []) hz =
     Inr \<lparr> name = (if nm \<noteq> Some [] then nm else None), designation = dsg,
           diameter = float_nan, hazardous = (hz = PStr ''Y''), approaches = [] \<rparr>"
  by (simp add: NearEarthObject_init_def py_eq_str_iff)

lemma init_neo_converted:
  "dia \<noteq> PStr [] \<Longrightarrow> py_float b dia = Inr x \<Longrightarrow>
   NearEarthObject_init b dsg nm dia hz =
     Inr \<lparr> name = (if nm \<noteq> Some [] then nm else None), designation = dsg, diameter = x,
           hazardous = (hz = PStr ''Y''), approaches = [] \<rparr>"
  by (simp add: NearEarthObject_init_def py_eq_str_iff)

lemma init_neo_name:
  "NearEarthObject_init b dsg nm dia hz = Inr n \<Longrightarrow>
   name n = (if nm \<noteq> Some [] then nm else None) \<and> designation n = dsg"
  by (auto simp: NearEarthObject_init_def split: sum.splits)

lemma init_neo_defaults:
  "NearEarthObject_init b default_designation default_name default_diameter default_hazardous =
     Inr \<lparr> name = None, designation = [], diameter = float_nan, hazardous = False,
           approaches = [] \<rparr>"
  by (simp add: init_neo_float default_designation_def default_name_def default_diameter_def
      default_hazardous_def)

lemma init_approach_defaults:
  "cd_to_datetime h default_time = Inr t \<Longrightarrow>
   CloseApproach_init b h default_distance default_velocity default_time default_neo =
     Inr \<lparr> private_designation = PNone, time = t, distance = 0, velocity = 0, neo = None \<rparr>"
  by (simp add: CloseApproach_init_def default_distance_def default_velocity_def
      default_neo_def float_zero_def)

lemma scenario_init_eros:
  "NearEarthObject_init scenario_builtins ''433'' (Some ''Eros'') (PFloat 0x4030D70A3D70A3D7)
     (PStr ''N'') = Inr eros"
  by (simp add: init_neo_float eros_def)

lemma float_nonneg_eq: "float_nonneg x \<Longrightarrow> float_eq x x"
  by (simp add: float_nonneg_def float_eq_def)

lemma scenario_init_approach:
  "CloseApproach_init scenario_builtins scenario_helpers (PStr ''0.148'') (PStr ''5.1'')
     ''1900-Dec-27 01:30'' (PStr ''433'') = Inr eros_approach"
  by (simp add: CloseApproach_init_def scenario_builtins_def scenario_helpers_def
      eros_approach_def)

section \<open>Theorems\<close>

text \<open>
  C1. For a \<open>CloseApproach\<close> whose \<open>neo\<close> has been linked to a \<open>NearEarthObject\<close>,
  \<open>serialize("csv")\<close> returns a flat dictionary with exactly the keys
  \<open>datetime_utc\<close> (the formatted time string), \<open>distance_au\<close>, \<open>velocity_km_s\<close>,
  \<open>designation\<close>, \<open>name\<close>, \<open>diameter_km\<close> and \<open>potentially_hazardous\<close>, in this order,
  and \<open>serialize("json")\<close> returns a dictionary with the keys \<open>datetime_utc\<close>,
  \<open>distance_au\<close>, \<open>velocity_km_s\<close> and \<open>neo\<close>, the last a nested dictionary with the
  keys \<open>designation\<close>, \<open>name\<close>, \<open>diameter_km\<close> and \<open>potentially_hazardous\<close>. The two
  results hold the same entries: the flat one is the nested one with the entries of
  \<open>neo\<close> put in its place.
\<close>

theorem serialize_csv_json_linked:
  assumes "neo ca = Some n"
  shows "CloseApproach_serialize h ca (PStr ''csv'') =
           Inr (PDict [(''datetime_utc'', PStr (CloseApproach_time_str h ca)),
                       (''distance_au'', PFloat (distance ca)),
                       (''velocity_km_s'', PFloat (velocity ca)),
                       (''designation'', PStr (designation n)),
                       (''name'', py_opt_str (name n)),
                       (''diameter_km'', PFloat (diameter n)),
                       (''potentially_hazardous'', PBool (hazardous n))]) \<and>
         CloseApproach_serialize h ca (PStr ''json'') =
           Inr (PDict [(''datetime_utc'', PStr (CloseApproach_time_str h ca)),
                       (''distance_au'', PFloat (distance ca)),
                       (''velocity_km_s'', PFloat (velocity ca)),
                       (''neo'', PDict [(''designation'', PStr (designation n)),
                                        (''name'', py_opt_str (name n)),
                                        (''diameter_km'', PFloat (diameter n)),
                                        (''potentially_hazardous'', PBool (hazardous n))])]) \<and>
         (\<exists>event object.
            map fst event = [''datetime_utc'', ''distance_au'', ''velocity_km_s''] \<and>
            map fst object = [''designation'', ''name'', ''diameter_km'', ''potentially_hazardous''] \<and>
            CloseApproach_serialize h ca (PStr ''csv'') = Inr (PDict (event @ object)) \<and>
            CloseApproach_serialize h ca (PStr ''json'') =
              Inr (PDict (event @ [(''neo'', PDict object)])))"
proof -
  let ?event = "[(''datetime_utc'', PStr (CloseApproach_time_str h ca)),
                 (''distance_au'', PFloat (distance ca)),
                 (''velocity_km_s'', PFloat (velocity ca))]"
  let ?object = "[(''designation'', PStr (designation n)),
                  (''name'', py_opt_str (name n)),
                  (''diameter_km'', PFloat (diameter n)),
                  (''potentially_hazardous'', PBool (hazardous n))]"
  have csv: "CloseApproach_serialize h ca (PStr ''csv'') = Inr (PDict (?event @ ?object))"
    using assms by (simp add: CloseApproach_serialize_def)
  have json: "CloseApproach_serialize h ca (PStr ''json'') =
                Inr (PDict (?event @ [(''neo'', PDict ?object)]))"
    using assms by (simp add: CloseApproach_serialize_def)
  have both: "\<exists>event object.
            map fst event = [''datetime_utc'', ''distance_au'', ''velocity_km_s''] \<and>
            map fst object = [''designation'', ''name'', ''diameter_km'', ''potentially_hazardous''] \<and>
            CloseApproach_serialize h ca (PStr ''csv'') = Inr (PDict (event @ object)) \<and>
            CloseApproach_serialize h ca (PStr ''json'') =
              Inr (PDict (event @ [(''neo'', PDict object)]))"
    by (rule exI [of _ ?event], rule exI [of _ ?object]) (simp add: csv json)
  show ?thesis
  proof (intro conjI)
    show "CloseApproach_serialize h ca (PStr ''csv'') =
           Inr (PDict [(''datetime_utc'', PStr (CloseApproach_time_str h ca)),
                       (''distance_au'', PFloat (distance ca)),
                       (''velocity_km_s'', PFloat (velocity ca)),
                       (''designation'', PStr (designation n)),
                       (''name'', py_opt_str (name n)),
                       (''diameter_km'', PFloat (diameter n)),
                       (''potentially_hazardous'', PBool (hazardous n))])"
      using csv by simp
    show "CloseApproach_serialize h ca (PStr ''json'') =
           Inr (PDict [(''datetime_utc'', PStr (CloseApproach_time_str h ca)),
                       (''distance_au'', PFloat (distance ca)),
                       (''velocity_km_s'', PFloat (velocity ca)),
                       (''neo'', PDict [(''designation'', PStr (designation n)),
                                        (''name'', py_opt_str (name n)),
                                        (''diameter_km'', PFloat (diameter n)),
                                        (''potentially_hazardous'', PBool (hazardous n))])])"
      using json by simp
    show "\<exists>event object.
            map fst event = [''datetime_utc'', ''distance_au'', ''velocity_km_s''] \<and>
            map fst object = [''designation'', ''name'', ''diameter_km'', ''potentially_hazardous''] \<and>
            CloseApproach_serialize h ca (PStr ''csv'') = Inr (PDict (event @ object)) \<and>
            CloseApproach_serialize h ca (PStr ''json'') =
              Inr (PDict (event @ [(''neo'', PDict object)]))"
      by (rule both)
  qed
qed

theorem serialize_csv_json_linked_witness:
  "neo eros_linked = Some (eros \<lparr> approaches := [0] \<rparr>) \<and>
   CloseApproach_serialize scenario_helpers eros_linked (PStr ''csv'') =
     Inr (PDict [(''datetime_utc'', PStr ''1900-Dec-27 01:30''),
                 (''distance_au'', PFloat 0x3FC2F1A9FBE76C8B),
                 (''velocity_km_s'', PFloat 0x4014666666666666),
                 (''designation'', PStr ''433''),
                 (''name'', PStr ''Eros''),
                 (''diameter_km'', PFloat 0x4030D70A3D70A3D7),
                 (''potentially_hazardous'', PBool False)]) \<and>
   CloseApproach_serialize scenario_helpers eros_linked (PStr ''json'') =
     Inr (PDict [(''datetime_utc'', PStr ''1900-Dec-27 01:30''),
                 (''distance_au'', PFloat 0x3FC2F1A9FBE76C8B),
                 (''velocity_km_s'', PFloat 0x4014666666666666),
                 (''neo'', PDict [(''designation'', PStr ''433''),
                                  (''name'', PStr ''Eros''),
                                  (''diameter_km'', PFloat 0x4030D70A3D70A3D7),
                                  (''potentially_hazardous'', PBool False)])])"
proof -
  have linked: "neo eros_linked = Some (eros \<lparr> approaches := [0] \<rparr>)"
    by (simp add: eros_linked_def)
  have t: "CloseApproach_time_str scenario_helpers eros_linked = ''1900-Dec-27 01:30''"
    by (simp add: CloseApproach_time_str_def eros_linked_def eros_approach_def
        scenario_helpers_def)
  have d: "distance eros_linked = 0x3FC2F1A9FBE76C8B" "velocity eros_linked = 0x4014666666666666"
    by (simp_all add: eros_linked_def eros_approach_def)
  have o: "designation (eros \<lparr> approaches := [0] \<rparr>) = ''433''"
    "name (eros \<lparr> approaches := [0] \<rparr>) = Some ''Eros''"
    "diameter (eros \<lparr> approaches := [0] \<rparr>) = 0x4030D70A3D70A3D7"
    "hazardous (eros \<lparr> approaches := [0] \<rparr>) = False"
    by (simp_all add: eros_def)
  show ?thesis
    using linked serialize_csv_json_linked [OF linked, of scenario_helpers]
    by (simp add: t d o)
qed

text \<open>
  C2. For every \<open>CloseApproach\<close>, linked or not, and every format tag other than
  \<open>"csv"\<close> and \<open>"json"\<close> (\<open>"xml"\<close>, say), \<open>serialize\<close> raises a \<open>ValueError\<close> with
  the message \<open>Invalid file extension\<close>; the result is the error alone, and no
  dictionary, whole or partial, comes with it.
\<close>

theorem serialize_invalid_extension:
  "extension \<noteq> PStr ''csv'' \<Longrightarrow> extension \<noteq> PStr ''json'' \<Longrightarrow>
   CloseApproach_serialize h ca extension = Inl (ValueError ''Invalid file extension'')"
  by (simp add: CloseApproach_serialize_def py_eq_str_iff)

theorem serialize_invalid_extension_witness:
  "PStr ''xml'' \<noteq> PStr ''csv'' \<and> PStr ''xml'' \<noteq> PStr ''json'' \<and>
   CloseApproach_serialize scenario_helpers eros_linked (PStr ''xml'') =
     Inl (ValueError ''Invalid file extension'') \<and>
   CloseApproach_serialize scenario_helpers eros_approach PNone =
     Inl (ValueError ''Invalid file extension'')"
proof -
  have a: "PStr ''xml'' \<noteq> PStr ''csv''" and b: "PStr ''xml'' \<noteq> PStr ''json''"
    by simp_all
  have c: "PNone \<noteq> PStr ''csv''" and d: "PNone \<noteq> PStr ''json''"
    by simp_all
  show ?thesis
    using a b serialize_invalid_extension [OF a b, of scenario_helpers eros_linked]
      serialize_invalid_extension [OF c d, of scenario_helpers eros_approach]
    by simp
qed

text \<open>
  C3. Whatever raw hazardous indicator the constructor of a \<open>NearEarthObject\<close>
  receives, the \<open>hazardous\<close> attribute of the object it builds is true exactly when
  that input is the string \<open>"Y"\<close>; \<open>"y"\<close>, \<open>"N"\<close>, the empty string and the
  default \<open>False\<close> all give false.
\<close>

theorem hazardous_iff_literal_Y:
  "NearEarthObject_init b dsg nm dia hz = Inr neo' \<Longrightarrow> hazardous neo' = (hz = PStr ''Y'')"
  by (auto simp: NearEarthObject_init_def py_eq_str_iff split: sum.splits if_splits)

theorem hazardous_iff_literal_Y_witness:
  "NearEarthObject_init scenario_builtins ''433'' (Some ''Eros'') (PFloat 0x4030D70A3D70A3D7)
     (PStr ''N'') = Inr eros \<and>
   hazardous eros = False \<and>
   NearEarthObject_init scenario_builtins ''433'' (Some ''Eros'') (PFloat 0x4030D70A3D70A3D7)
     (PStr ''Y'') = Inr (eros \<lparr> hazardous := True \<rparr>) \<and>
   hazardous (eros \<lparr> hazardous := True \<rparr>) = True"
proof -
  have n: "NearEarthObject_init scenario_builtins ''433'' (Some ''Eros'')
             (PFloat 0x4030D70A3D70A3D7) (PStr ''N'') = Inr eros"
    by (rule scenario_init_eros)
  have y: "NearEarthObject_init scenario_builtins ''433'' (Some ''Eros'')
             (PFloat 0x4030D70A3D70A3D7) (PStr ''Y'') = Inr (eros \<lparr> hazardous := True \<rparr>)"
    by (simp add: init_neo_float eros_def)
  show ?thesis
    using n y hazardous_iff_literal_Y [OF n] hazardous_iff_literal_Y [OF y] by simp
qed

text \<open>
  C4. For every constructed \<open>NearEarthObject\<close>, \<open>fullname\<close> is the designation
  followed by the name in parentheses when a name was given, and the designation alone
  when the name was absent or the empty string. \<open>fullname\<close> reads two attributes and
  returns a string: there is no state it could change and no branch on which it raises,
  which is why its model is a total function to strings.
\<close>

theorem fullname_of_constructed:
  "NearEarthObject_init b dsg nm dia hz = Inr n \<Longrightarrow>
   NearEarthObject_fullname n =
     (case nm of
        None \<Rightarrow> dsg
      | Some s \<Rightarrow> if s = [] then dsg else dsg @ '' ('' @ s @ '')'')"
  by (auto simp: NearEarthObject_fullname_def dest!: init_neo_name split: option.splits)

theorem fullname_of_constructed_witness:
  "NearEarthObject_init scenario_builtins ''433'' (Some ''Eros'') (PFloat 0x4030D70A3D70A3D7)
     (PStr ''N'') = Inr eros \<and>
   NearEarthObject_fullname eros = ''433 (Eros)'' \<and>
   NearEarthObject_init scenario_builtins ''433'' (Some []) (PFloat 0x4030D70A3D70A3D7)
     (PStr ''N'') = Inr (eros \<lparr> name := None \<rparr>) \<and>
   NearEarthObject_fullname (eros \<lparr> name := None \<rparr>) = ''433'' \<and>
   NearEarthObject_init scenario_builtins ''433'' None (PFloat 0x4030D70A3D70A3D7)
     (PStr ''N'') = Inr (eros \<lparr> name := None \<rparr>)"
proof -
  have named: "NearEarthObject_init scenario_builtins ''433'' (Some ''Eros'')
                 (PFloat 0x4030D70A3D70A3D7) (PStr ''N'') = Inr eros"
    by (rule scenario_init_eros)
  have empty: "NearEarthObject_init scenario_builtins ''433'' (Some [])
                 (PFloat 0x4030D70A3D70A3D7) (PStr ''N'') = Inr (eros \<lparr> name := None \<rparr>)"
    by (simp add: init_neo_float eros_def)
  have absent: "NearEarthObject_init scenario_builtins ''433'' None
                  (PFloat 0x4030D70A3D70A3D7) (PStr ''N'') = Inr (eros \<lparr> name := None \<rparr>)"
    by (simp add: init_neo_float eros_def)
  show ?thesis
    using named empty absent fullname_of_constructed [OF named]
      fullname_of_constructed [OF empty]
    by simp
qed

text \<open>
  C5. For every \<open>NearEarthObject\<close>, the description \<open>str(neo)\<close> is
  \<open>NEO {fullname} has a diameter of {diameter:.3f} km and {is|is not} potentially hazardous.\<close>
  when the diameter is not a not-a-number, and
  \<open>NEO {fullname}, {is|is not} potentially hazardous.\<close>, with no diameter clause, when
  it is; \<open>is\<close> is written when \<open>hazardous\<close> is true and \<open>is not\<close> otherwise. In
  particular \<open>NearEarthObject(designation="2015 AB", diameter="")\<close> is built, and its
  description is \<open>NEO 2015 AB, is not potentially hazardous.\<close>
\<close>

theorem description_of_neo:
  "NearEarthObject_str b n =
     (if isnan (diameter n) then
        ''NEO '' @ NearEarthObject_fullname n @ '', '' @
        (if hazardous n then ''is'' else ''is not'') @ '' potentially hazardous.''
      else
        ''NEO '' @ NearEarthObject_fullname n @ '' has a diameter of '' @
        format_fixed b 3 (diameter n) @ '' km and '' @
        (if hazardous n then ''is'' else ''is not'') @ '' potentially hazardous.'') \<and>
   (\<exists>unnamed.
      NearEarthObject_init b ''2015 AB'' None (PStr []) default_hazardous = Inr unnamed \<and>
      NearEarthObject_str b unnamed = ''NEO 2015 AB, is not potentially hazardous.'')"
proof (intro conjI)
  show "NearEarthObject_str b n =
     (if isnan (diameter n) then
        ''NEO '' @ NearEarthObject_fullname n @ '', '' @
        (if hazardous n then ''is'' else ''is not'') @ '' potentially hazardous.''
      else
        ''NEO '' @ NearEarthObject_fullname n @ '' has a diameter of '' @
        format_fixed b 3 (diameter n) @ '' km and '' @
        (if hazardous n then ''is'' else ''is not'') @ '' potentially hazardous.'')"
    by (simp add: NearEarthObject_str_def)
next
  let ?u = "\<lparr> name = None, designation = ''2015 AB'', diameter = float_nan,
              hazardous = False, approaches = [] \<rparr>"
  have built: "NearEarthObject_init b ''2015 AB'' None (PStr []) default_hazardous = Inr ?u"
    by (simp add: init_neo_empty default_hazardous_def)
  have "NearEarthObject_str b ?u = ''NEO 2015 AB, is not potentially hazardous.''"
    by (simp add: NearEarthObject_str_def NearEarthObject_fullname_def isnan_float_nan)
  with built show "\<exists>unnamed.
      NearEarthObject_init b ''2015 AB'' None (PStr []) default_hazardous = Inr unnamed \<and>
      NearEarthObject_str b unnamed = ''NEO 2015 AB, is not potentially hazardous.''"
    by (intro exI conjI)
qed

theorem description_of_neo_witness:
  "NearEarthObject_str scenario_builtins eros =
     ''NEO 433 (Eros) has a diameter of 16.840 km and is not potentially hazardous.'' \<and>
   NearEarthObject_str scenario_builtins (eros \<lparr> name := None, hazardous := True \<rparr>) =
     ''NEO 433 has a diameter of 16.840 km and is potentially hazardous.'' \<and>
   NearEarthObject_str scenario_builtins (eros \<lparr> diameter := float_nan \<rparr>) =
     ''NEO 433 (Eros), is not potentially hazardous.''"
proof -
  have known: "\<not> isnan (diameter eros)"
    by (simp add: isnan_def eros_def)
  have fmt: "format_fixed scenario_builtins 3 0x4030D70A3D70A3D7 = ''16.840''"
    by (simp add: scenario_builtins_def)
  show ?thesis
    using description_of_neo [of scenario_builtins eros]
      description_of_neo [of scenario_builtins "eros \<lparr> name := None, hazardous := True \<rparr>"]
      description_of_neo [of scenario_builtins "eros \<lparr> diameter := float_nan \<rparr>"]
      known
    by (simp add: isnan_float_nan fmt NearEarthObject_fullname_def eros_def)
qed

text \<open>
  C6. A float \<open>d\<close> given as the diameter is the \<open>diameter\<close> attribute of the
  constructed object, bit for bit, and for \<open>d \<ge> 0\<close> the attribute and \<open>d\<close> are equal
  as Python compares floats. Any other input than the empty string on which \<open>float\<close>
  succeeds is stored as the float that \<open>float\<close> returns. The empty string is stored as
  a not-a-number, a value that is not equal to itself.
\<close>

theorem diameter_as_given:
  "(\<exists>n. NearEarthObject_init b dsg nm (PFloat d) hz = Inr n \<and> diameter n = d \<and>
        (float_nonneg d \<longrightarrow> float_eq (diameter n) d)) \<and>
   (dia \<noteq> PStr [] \<and> py_float b dia = Inr x \<longrightarrow>
      (\<exists>n. NearEarthObject_init b dsg nm dia hz = Inr n \<and> diameter n = x)) \<and>
   (\<exists>n. NearEarthObject_init b dsg nm (PStr []) hz = Inr n \<and> isnan (diameter n) \<and>
        \<not> float_eq (diameter n) (diameter n))"
proof (intro conjI)
  show "\<exists>n. NearEarthObject_init b dsg nm (PFloat d) hz = Inr n \<and> diameter n = d \<and>
        (float_nonneg d \<longrightarrow> float_eq (diameter n) d)"
    by (simp add: init_neo_float float_nonneg_eq)
  show "dia \<noteq> PStr [] \<and> py_float b dia = Inr x \<longrightarrow>
      (\<exists>n. NearEarthObject_init b dsg nm dia hz = Inr n \<and> diameter n = x)"
    by (simp add: init_neo_converted)
  show "\<exists>n. NearEarthObject_init b dsg nm (PStr []) hz = Inr n \<and> isnan (diameter n) \<and>
        \<not> float_eq (diameter n) (diameter n)"
    by (simp add: init_neo_empty isnan_float_nan float_eq_nan)
qed

theorem diameter_as_given_witness:
  "NearEarthObject_init scenario_builtins ''433'' (Some ''Eros'') (PFloat 0x4030D70A3D70A3D7)
     (PStr ''N'') = Inr eros \<and>
   diameter eros = 0x4030D70A3D70A3D7 \<and>
   float_nonneg 0x4030D70A3D70A3D7 \<and>
   float_eq (diameter eros) 0x4030D70A3D70A3D7 \<and>
   PStr ''16.84'' \<noteq> PStr [] \<and>
   py_float scenario_builtins (PStr ''16.84'') = Inr 0x4030D70A3D70A3D7 \<and>
   NearEarthObject_init scenario_builtins ''433'' (Some ''Eros'') (PStr ''16.84'')
     (PStr ''N'') = Inr eros \<and>
   NearEarthObject_init scenario_builtins ''433'' (Some ''Eros'') (PStr [])
     (PStr ''N'') = Inr (eros \<lparr> diameter := float_nan \<rparr>) \<and>
   \<not> float_eq (diameter (eros \<lparr> diameter := float_nan \<rparr>))
        (diameter (eros \<lparr> diameter := float_nan \<rparr>))"
proof -
  have conv: "py_float scenario_builtins (PStr ''16.84'') = Inr 0x4030D70A3D70A3D7"
    by (simp add: scenario_builtins_def)
  have pos: "float_nonneg 0x4030D70A3D70A3D7"
    by (simp add: float_nonneg_def isnan_def)
  have emp: "NearEarthObject_init scenario_builtins ''433'' (Some ''Eros'') (PStr [])
               (PStr ''N'') = Inr (eros \<lparr> diameter := float_nan \<rparr>)"
    by (simp add: init_neo_empty eros_def)
  have str: "NearEarthObject_init scenario_builtins ''433'' (Some ''Eros'') (PStr ''16.84'')
               (PStr ''N'') = Inr eros"
    by (simp add: init_neo_converted [OF _ conv] eros_def)
  show ?thesis
    using diameter_as_given [of scenario_builtins "''433''" "Some ''Eros''"
        "0x4030D70A3D70A3D7" "PStr ''N''" "PStr ''16.84''" "0x4030D70A3D70A3D7"]
      conv pos emp str scenario_init_eros float_nonneg_eq [OF pos]
    by (simp add: eros_def del: py_float.simps)
qed

text \<open>
  C7, as the spec states it, fails: a \<open>NearEarthObject\<close> built with the empty string as
  its name, or with no name, stores \<open>None\<close> as its \<open>name\<close>, and not the string
  \<open>no name\<close>.
\<close>

theorem name_is_not_no_name:
  "NearEarthObject_init scenario_builtins ''2015 AB'' (Some []) default_diameter
     default_hazardous =
     Inr \<lparr> name = None, designation = ''2015 AB'', diameter = float_nan, hazardous = False,
           approaches = [] \<rparr> \<and>
   NearEarthObject_init scenario_builtins ''2015 AB'' None default_diameter
     default_hazardous =
     Inr \<lparr> name = None, designation = ''2015 AB'', diameter = float_nan, hazardous = False,
           approaches = [] \<rparr> \<and>
   name \<lparr> name = None, designation = ''2015 AB'', diameter = float_nan, hazardous = False,
          approaches = [] \<rparr> \<noteq> Some ''no name''"
  by (simp add: init_neo_float default_diameter_def default_hazardous_def)

text \<open>
  C7, amended. For every \<open>NearEarthObject\<close> constructed with an absent or empty-string
  name input, the stored \<open>name\<close> attribute is \<open>None\<close>.
\<close>

theorem absent_or_empty_name_is_None:
  "NearEarthObject_init b dsg nm dia hz = Inr n \<Longrightarrow> nm = None \<or> nm = Some [] \<Longrightarrow>
   name n = None"
  by (auto dest!: init_neo_name)

theorem absent_or_empty_name_is_None_witness:
  "NearEarthObject_init scenario_builtins ''433'' (Some []) (PFloat 0x4030D70A3D70A3D7)
     (PStr ''N'') = Inr (eros \<lparr> name := None \<rparr>) \<and>
   (Some [] = (None :: string option) \<or> Some [] = Some ([] :: string)) \<and>
   name (eros \<lparr> name := None \<rparr>) = None"
proof -
  have built: "NearEarthObject_init scenario_builtins ''433'' (Some [])
                 (PFloat 0x4030D70A3D70A3D7) (PStr ''N'') = Inr (eros \<lparr> name := None \<rparr>)"
    by (simp add: init_neo_float eros_def)
  have empty: "Some [] = (None :: string option) \<or> Some [] = Some ([] :: string)"
    by simp
  show ?thesis
    using built empty absent_or_empty_name_is_None [OF built empty] by simp
qed

text \<open>
  C8. Whatever designation the constructor of a \<open>CloseApproach\<close> receives, \<open>neo\<close> is
  \<open>None\<close> in the object it builds, and the \<open>designation\<close> property returns that
  argument unchanged, both then and after \<open>neo\<close> has been assigned.
\<close>

theorem neo_starts_None_designation_stays:
  "CloseApproach_init b h dist vel t dsg = Inr ca \<Longrightarrow>
   neo ca = None \<and> CloseApproach_designation ca = dsg \<and>
   CloseApproach_designation (ca \<lparr> neo := linked \<rparr>) = dsg"
  by (auto simp: CloseApproach_init_def CloseApproach_designation_def split: sum.splits)

theorem neo_starts_None_designation_stays_witness:
  "CloseApproach_init scenario_builtins scenario_helpers (PStr ''0.148'') (PStr ''5.1'')
     ''1900-Dec-27 01:30'' (PStr ''433'') = Inr eros_approach \<and>
   neo eros_approach = None \<and>
   CloseApproach_designation eros_approach = PStr ''433'' \<and>
   CloseApproach_designation eros_linked = PStr ''433''"
proof -
  have built: "CloseApproach_init scenario_builtins scenario_helpers (PStr ''0.148'')
                 (PStr ''5.1'') ''1900-Dec-27 01:30'' (PStr ''433'') = Inr eros_approach"
    by (rule scenario_init_approach)
  show ?thesis
    using built
      neo_starts_None_designation_stays [OF built,
        of "Some (eros \<lparr> approaches := [0] \<rparr>)"]
    by (simp add: eros_linked_def)
qed

text \<open>
  C9. The \<open>time_str\<close> property of a \<open>CloseApproach\<close> is the time as
  \<open>datetime_to_str\<close> formats it when the time is set, and the string
  \<open>an unknown date and time\<close> when the time is \<open>None\<close>. So when \<open>cd_to_datetime\<close>
  answers a time string with \<open>None\<close>, and the distance and the velocity convert, the
  construction succeeds and \<open>time_str\<close> of the object is that string.
\<close>

theorem time_str_formatted_or_unknown:
  "(time ca = Some t \<longrightarrow> CloseApproach_time_str h ca = datetime_to_str h t) \<and>
   (time ca = None \<longrightarrow> CloseApproach_time_str h ca = ''an unknown date and time'') \<and>
   (cd_to_datetime h s = Inr None \<and> py_float b dist = Inr d \<and> py_float b vel = Inr v \<longrightarrow>
      (\<exists>built. CloseApproach_init b h dist vel s dsg = Inr built \<and> time built = None \<and>
         CloseApproach_time_str h built = ''an unknown date and time''))"
  by (simp add: CloseApproach_time_str_def CloseApproach_init_def)

theorem time_str_formatted_or_unknown_witness:
  "time eros_approach = Some scenario_time \<and>
   CloseApproach_time_str scenario_helpers eros_approach = ''1900-Dec-27 01:30'' \<and>
   time (eros_approach \<lparr> time := None \<rparr>) = None \<and>
   CloseApproach_time_str scenario_helpers (eros_approach \<lparr> time := None \<rparr>) =
     ''an unknown date and time'' \<and>
   cd_to_datetime scenario_helpers ''27/12/1900'' = Inr None \<and>
   py_float scenario_builtins (PStr ''0.148'') = Inr 0x3FC2F1A9FBE76C8B \<and>
   py_float scenario_builtins (PStr ''5.1'') = Inr 0x4014666666666666 \<and>
   CloseApproach_init scenario_builtins scenario_helpers (PStr ''0.148'') (PStr ''5.1'')
     ''27/12/1900'' (PStr ''433'') = Inr (eros_approach \<lparr> time := None \<rparr>)"
proof -
  have set: "time eros_approach = Some scenario_time"
    by (simp add: eros_approach_def)
  have unset: "time (eros_approach \<lparr> time := None \<rparr>) = None"
    by simp
  have parse: "cd_to_datetime scenario_helpers ''27/12/1900'' = Inr None"
    by (simp add: scenario_helpers_def)
  have fmt: "datetime_to_str scenario_helpers scenario_time = ''1900-Dec-27 01:30''"
    by (simp add: scenario_helpers_def)
  have conv: "py_float scenario_builtins (PStr ''0.148'') = Inr 0x3FC2F1A9FBE76C8B"
    "py_float scenario_builtins (PStr ''5.1'') = Inr 0x4014666666666666"
    by (simp_all add: scenario_builtins_def)
  have built: "CloseApproach_init scenario_builtins scenario_helpers (PStr ''0.148'')
                 (PStr ''5.1'') ''27/12/1900'' (PStr ''433'') =
                 Inr (eros_approach \<lparr> time := None \<rparr>)"
    by (simp add: CloseApproach_init_def parse conv eros_approach_def del: py_float.simps)
  show ?thesis
    using set unset parse conv built fmt
      time_str_formatted_or_unknown [of eros_approach scenario_time scenario_helpers
        "''27/12/1900''" scenario_builtins "PStr ''0.148''" "0x3FC2F1A9FBE76C8B"
        "PStr ''5.1''" "0x4014666666666666" "PStr ''433''"]
      time_str_formatted_or_unknown [of "eros_approach \<lparr> time := None \<rparr>" scenario_time
        scenario_helpers "''27/12/1900''" scenario_builtins "PStr ''0.148''"
        "0x3FC2F1A9FBE76C8B" "PStr ''5.1''" "0x4014666666666666" "PStr ''433''"]
    by (simp del: py_float.simps)
qed

text \<open>
  C10. For a \<open>CloseApproach\<close> whose \<open>neo\<close> is still \<open>None\<close>, \<open>__repr__\<close> returns a
  string, in which the reference is written \<open>neo=None\<close>, while \<open>__str__\<close> and
  \<open>serialize\<close>, with either format, read an attribute of \<open>None\<close> and raise.
\<close>

theorem repr_of_unlinked:
  "neo ca = None \<Longrightarrow>
   CloseApproach_repr b h ca =
     ''CloseApproach(time='' @ repr_str b (CloseApproach_time_str h ca) @
     '', distance='' @ format_fixed b 2 (distance ca) @
     '', velocity='' @ format_fixed b 2 (velocity ca) @ '', neo=None)'' \<and>
   CloseApproach_str b h ca = Inl AttributeError \<and>
   CloseApproach_serialize h ca (PStr ''csv'') = Inl AttributeError \<and>
   CloseApproach_serialize h ca (PStr ''json'') = Inl AttributeError"
  by (simp add: CloseApproach_repr_def CloseApproach_str_def CloseApproach_serialize_def)

theorem repr_of_unlinked_witness:
  "neo eros_approach = None \<and>
   CloseApproach_repr scenario_builtins scenario_helpers eros_approach =
     ''CloseApproach(time='' @ [CHR 0x27] @ ''1900-Dec-27 01:30'' @ [CHR 0x27] @
     '', distance=0.15, velocity=5.10, neo=None)'' \<and>
   CloseApproach_str scenario_builtins scenario_helpers eros_approach = Inl AttributeError \<and>
   CloseApproach_serialize scenario_helpers eros_approach (PStr ''csv'') =
     Inl AttributeError \<and>
   CloseApproach_serialize scenario_helpers eros_approach (PStr ''json'') =
     Inl AttributeError"
proof -
  have unlinked: "neo eros_approach = None"
    by (simp add: eros_approach_def)
  have t: "CloseApproach_time_str scenario_helpers eros_approach = ''1900-Dec-27 01:30''"
    by (simp add: CloseApproach_time_str_def eros_approach_def scenario_helpers_def)
  have r: "repr_str scenario_builtins ''1900-Dec-27 01:30'' =
             [CHR 0x27] @ ''1900-Dec-27 01:30'' @ [CHR 0x27]"
    by (simp add: scenario_builtins_def)
  have f: "format_fixed scenario_builtins 2 (distance eros_approach) = ''0.15''"
    "format_fixed scenario_builtins 2 (velocity eros_approach) = ''5.10''"
    by (simp_all add: scenario_builtins_def eros_approach_def)
  show ?thesis
    using unlinked repr_of_unlinked [OF unlinked, of scenario_builtins scenario_helpers]
    by (simp add: t r f)
qed

end
